theory Spec2Isabelle
  imports Complex_Main
begin

section \<open>Numbers, vectors and errors\<close>

text \<open>
  The program computes on numpy arrays of floats, one entry per ray, and every
  operation it uses is element-wise. The embedding follows one ray: a numpy value is
  the \<^typ>\<open>real\<close> number of that ray, \<open>np.where(c, a, b)\<close> is \<open>if c then a else b\<close>,
  \<open>np.minimum\<close> and \<open>np.maximum\<close> are \<open>min\<close> and \<open>max\<close>, and a boolean mask that
  multiplies a vector is \<open>of_bool\<close> of the condition. In this part arithmetic is exact
  real arithmetic; it carries the statements about the structure of the tracer. The
  rounding, overflow and NaN of the floating-point format are modelled for \<open>norm\<close> and
  \<open>intersect\<close> in section \<open>Double precision\<close>, and statements about numeric results
  say which arithmetic they are about. Exceptions of the Python code are values of type
  \<open>error\<close>.
\<close>

datatype error = TypeError | ValueError | ZeroDivisionError

record Vector3D =
  x :: real
  y :: real
  z :: real

definition vec_mul :: "Vector3D \<Rightarrow> real \<Rightarrow> Vector3D" where
  \<comment> \<open>\<open>Vector3D.__mul__\<close>\<close>
  "vec_mul v other = \<lparr>x = x v * other, y = y v * other, z = z v * other\<rparr>"

definition vec_add :: "Vector3D \<Rightarrow> Vector3D \<Rightarrow> Vector3D" where
  \<comment> \<open>\<open>Vector3D.__add__\<close>\<close>
  "vec_add v other = \<lparr>x = x v + x other, y = y v + y other, z = z v + z other\<rparr>"

definition vec_sub :: "Vector3D \<Rightarrow> Vector3D \<Rightarrow> Vector3D" where
  \<comment> \<open>\<open>Vector3D.__sub__\<close>\<close>
  "vec_sub v other = \<lparr>x = x v - x other, y = y v - y other, z = z v - z other\<rparr>"

definition vec_dot :: "Vector3D \<Rightarrow> Vector3D \<Rightarrow> real" where
  \<comment> \<open>\<open>Vector3D.dot\<close>\<close>
  "vec_dot v other = (x v * x other) + (y v * y other) + (z v * z other)"

definition vec_abs :: "Vector3D \<Rightarrow> real" where
  \<comment> \<open>\<open>Vector3D.__abs__\<close>: the squared length\<close>
  "vec_abs v = vec_dot v v"

definition norm_divisor :: "Vector3D \<Rightarrow> real" where
  \<comment> \<open>the divisor \<open>np.where(mag == 0, 1, mag)\<close> of \<open>Vector3D.norm\<close>\<close>
  "norm_divisor v = (let mag = sqrt (vec_abs v) in if mag = 0 then 1 else mag)"

definition vec_norm :: "Vector3D \<Rightarrow> Vector3D" where
  \<comment> \<open>\<open>Vector3D.norm\<close>\<close>
  "vec_norm v = vec_mul v (1 / norm_divisor v)"

definition Color :: "real \<Rightarrow> real \<Rightarrow> real \<Rightarrow> Vector3D" where
  \<comment> \<open>\<open>Color = Vector3D\<close>: the constructor call \<open>Color(r, g, b)\<close>\<close>
  "Color r g b = \<lparr>x = r, y = g, z = b\<rparr>"

definition LightPosition :: Vector3D where
  "LightPosition = \<lparr>x = 5, y = 5, z = - 10\<rparr>"

definition CameraPosition :: Vector3D where
  "CameraPosition = \<lparr>x = 0, y = 35 / 100, z = - 1\<rparr>"

definition FAR_AWAY :: real where
  "FAR_AWAY = 10 ^ 39"

section \<open>Spheres and the intersection test\<close>

text \<open>
  A sphere object carries the four attributes set by \<open>Sphere.__init__\<close> and its class.
  \<open>CheckeredSphere\<close> inherits \<open>__init__\<close>, \<open>intersect\<close>, \<open>get_diffuse_color\<close> and
  \<open>light\<close> from \<open>Sphere\<close>.
\<close>

datatype sphere_class = Sphere_class | CheckeredSphere_class

record Sphere =
  center :: Vector3D
  radius :: real
  diffuse_color :: Vector3D
  mirror :: real
  cls :: sphere_class

text \<open>The local variables \<open>b\<close>, \<open>c\<close>, \<open>disc\<close> and \<open>h\<close> of \<open>Sphere.intersect\<close>.\<close>

definition intersect_b :: "Sphere \<Rightarrow> Vector3D \<Rightarrow> Vector3D \<Rightarrow> real" where
  "intersect_b self ray_origin ray_direction =
     2 * vec_dot ray_direction (vec_sub ray_origin (center self))"

definition intersect_c :: "Sphere \<Rightarrow> Vector3D \<Rightarrow> real" where
  "intersect_c self ray_origin =
     vec_abs (center self) + vec_abs ray_origin - 2 * vec_dot (center self) ray_origin
       - (radius self * radius self)"

definition intersect_disc :: "Sphere \<Rightarrow> Vector3D \<Rightarrow> Vector3D \<Rightarrow> real" where
  "intersect_disc self ray_origin ray_direction =
     (intersect_b self ray_origin ray_direction) ^ 2 - (4 * intersect_c self ray_origin)"

definition intersect_h :: "Sphere \<Rightarrow> Vector3D \<Rightarrow> Vector3D \<Rightarrow> real" where
  "intersect_h self ray_origin ray_direction =
     (let b = intersect_b self ray_origin ray_direction;
          sq = sqrt (max 0 (intersect_disc self ray_origin ray_direction));
          h0 = (- b - sq) / 2;
          h1 = (- b + sq) / 2
      in if h0 > 0 \<and> h0 < h1 then h0 else h1)"

definition intersect :: "Sphere \<Rightarrow> Vector3D \<Rightarrow> Vector3D \<Rightarrow> real" where
  \<comment> \<open>\<open>Sphere.intersect\<close>\<close>
  "intersect self ray_origin ray_direction =
     (let disc = intersect_disc self ray_origin ray_direction;
          h = intersect_h self ray_origin ray_direction;
          pred = (disc > 0 \<and> h > 0)
      in if pred then h else FAR_AWAY)"

section \<open>Shading and the recursive tracer\<close>

text \<open>
  \<open>Sphere\<close> defines no \<open>__eq__\<close>, so \<open>scene.index(self)\<close> compares object identities.
  Objects are therefore references into a store that never changes during a render,
  and a scene is a list of references.
\<close>

type_synonym ref = nat
type_synonym store = "ref \<Rightarrow> Sphere"

definition reduce :: "('a \<Rightarrow> 'a \<Rightarrow> 'a) \<Rightarrow> 'a list \<Rightarrow> error + 'a" where
  \<comment> \<open>\<open>functools.reduce\<close> without an initial value: \<open>TypeError\<close> on an empty list\<close>
  "reduce f xs = (case xs of [] \<Rightarrow> Inl TypeError | a # rest \<Rightarrow> Inr (foldl f a rest))"

fun index :: "'a list \<Rightarrow> 'a \<Rightarrow> error + nat" where
  \<comment> \<open>\<open>list.index\<close>: the first position of the value, \<open>ValueError\<close> when absent\<close>
  "index [] v = Inl ValueError"
| "index (a # rest) v =
     (if a = v then Inr 0
      else case index rest v of Inl e \<Rightarrow> Inl e | Inr i \<Rightarrow> Inr (Suc i))"

definition get_diffuse_color :: "Sphere \<Rightarrow> Vector3D \<Rightarrow> Vector3D" where
  \<comment> \<open>\<open>Sphere.get_diffuse_color\<close>, not overridden by \<open>CheckeredSphere\<close>; the attribute
      \<open>self.diffuse_color\<close> it reads is the instance attribute set by \<open>__init__\<close>, which
      hides the method of the same name in class \<open>CheckeredSphere\<close>\<close>
  "get_diffuse_color self intersection_point = diffuse_color self"

definition astype_int :: "real \<Rightarrow> int" where
  \<comment> \<open>\<open>.astype(int)\<close>: truncation toward zero\<close>
  "astype_int r = (if 0 \<le> r then \<lfloor>r\<rfloor> else \<lceil>r\<rceil>)"

definition CheckeredSphere_diffuse_color :: "Sphere \<Rightarrow> Vector3D \<Rightarrow> Vector3D" where
  \<comment> \<open>the method \<open>CheckeredSphere.diffuse_color\<close>; nothing calls it\<close>
  "CheckeredSphere_diffuse_color self intersection_point =
     (let checker = (astype_int (x intersection_point * 2) mod 2
                      = astype_int (z intersection_point * 2) mod 2)
      in vec_mul (diffuse_color self) (of_bool checker))"

definition see_light :: "store \<Rightarrow> ref \<Rightarrow> ref list \<Rightarrow> Vector3D \<Rightarrow> Vector3D \<Rightarrow> error + bool" where
  \<comment> \<open>the shadow test of \<open>Sphere.light\<close>\<close>
  "see_light st self scene nudged_point to_light =
     (let light_distances = map (\<lambda>s. intersect (st s) nudged_point to_light) scene
      in case reduce min light_distances of
           Inl e \<Rightarrow> Inl e
         | Inr light_nearest \<Rightarrow>
             (case index scene self of
                Inl e \<Rightarrow> Inl e
              | Inr i \<Rightarrow> Inr (light_distances ! i = light_nearest)))"

fun accumulate :: "real \<Rightarrow> Vector3D \<Rightarrow> (real \<times> (error + Vector3D)) list \<Rightarrow> error + Vector3D" where
  \<comment> \<open>the \<open>for\<close> loop of \<open>raytrace\<close> over each sphere's distance and the outcome of its
      \<open>light\<close> call; the first call that raises ends the loop\<close>
  "accumulate nearest color [] = Inr color"
| "accumulate nearest color ((distance, shaded) # rest) =
     (case shaded of
        Inl e \<Rightarrow> Inl e
      | Inr l \<Rightarrow>
          accumulate nearest
            (vec_add color
               (vec_mul (vec_mul l (of_bool (nearest \<noteq> FAR_AWAY))) (of_bool (distance = nearest))))
            rest)"

function raytrace :: "store \<Rightarrow> Vector3D \<Rightarrow> Vector3D \<Rightarrow> ref list \<Rightarrow> int \<Rightarrow> error + Vector3D"
  and light :: "store \<Rightarrow> ref \<Rightarrow> Vector3D \<Rightarrow> Vector3D \<Rightarrow> real \<Rightarrow> ref list \<Rightarrow> int \<Rightarrow> error + Vector3D"
where
  "raytrace st ray_origin ray_direction scene bounce =
     (let distances = map (\<lambda>sphere. intersect (st sphere) ray_origin ray_direction) scene
      in case reduce min distances of
           Inl e \<Rightarrow> Inl e
         | Inr nearest \<Rightarrow>
             accumulate nearest (Color 0 0 0)
               (map (\<lambda>(sphere, distance).
                       (distance, light st sphere ray_origin ray_direction distance scene bounce))
                    (zip scene distances)))"
| "light st self ray_origin ray_direction distance scene bounce =
     (let intersection_point = vec_add ray_origin (vec_mul ray_direction distance)
      in if radius (st self) = 0 then Inl ZeroDivisionError
         else
           let normal = vec_mul (vec_sub intersection_point (center (st self))) (1 / radius (st self));
               to_light = vec_norm (vec_sub LightPosition intersection_point);
               to_observer = vec_norm (vec_sub CameraPosition intersection_point);
               nudged_point = vec_add intersection_point (vec_mul normal (1 / 10000))
           in case see_light st self scene nudged_point to_light of
                Inl e \<Rightarrow> Inl e
              | Inr see \<Rightarrow>
                  (let color = Color (5 / 100) (5 / 100) (5 / 100);
                       lambert_value = max (vec_dot normal to_light) 0;
                       color = vec_add color
                                 (vec_mul (vec_mul (get_diffuse_color (st self) intersection_point)
                                                   lambert_value) (of_bool see))
                   in case (if bounce < 2
                           then let reflected_direction =
                                      vec_norm (vec_sub ray_direction
                                        (vec_mul (vec_mul normal 2) (vec_dot ray_direction normal)))
                                in (case raytrace st nudged_point reflected_direction scene (bounce + 1) of
                                      Inl e \<Rightarrow> Inl e
                                    | Inr reflected \<Rightarrow>
                                        Inr (vec_add color (vec_mul reflected (mirror (st self)))))
                           else Inr color) of
                       Inl e \<Rightarrow> Inl e
                     | Inr color \<Rightarrow>
                         let phong = vec_dot normal (vec_norm (vec_add to_light to_observer))
                         in Inr (vec_add color
                                   (vec_mul (vec_mul (Color 1 1 1) ((min (max phong 0) 1) ^ 50))
                                            (of_bool see)))))"
  by pat_completeness auto
termination
  by (relation "measure (\<lambda>call. case call of
          Inl (st, ray_origin, ray_direction, scene, bounce) \<Rightarrow> 2 * nat (3 - bounce) + 1
        | Inr (st, self, ray_origin, ray_direction, distance, scene, bounce) \<Rightarrow> 2 * nat (3 - bounce))")
     auto

declare raytrace.simps [simp del] light.simps [simp del]

subsection \<open>The tracer with a bound on nested calls\<close>

text \<open>
  The same two functions with a budget: \<open>raytrace_n k\<close> runs \<open>raytrace\<close> allowing at
  most \<open>k\<close> activations of \<open>raytrace\<close> nested in each other (the outermost one counted),
  and returns \<open>None\<close> when the code would enter one more. \<open>light_n k\<close> is \<open>light\<close> with
  \<open>k\<close> nested activations of \<open>raytrace\<close> left for its reflection step.
\<close>

fun accumulate_n ::
  "real \<Rightarrow> Vector3D \<Rightarrow> (real \<times> (error + Vector3D) option) list \<Rightarrow> (error + Vector3D) option" where
  "accumulate_n nearest color [] = Some (Inr color)"
| "accumulate_n nearest color ((distance, shaded) # rest) =
     (case shaded of
        None \<Rightarrow> None
      | Some (Inl e) \<Rightarrow> Some (Inl e)
      | Some (Inr l) \<Rightarrow>
          accumulate_n nearest
            (vec_add color
               (vec_mul (vec_mul l (of_bool (nearest \<noteq> FAR_AWAY))) (of_bool (distance = nearest))))
            rest)"

fun raytrace_n ::
    "nat \<Rightarrow> store \<Rightarrow> Vector3D \<Rightarrow> Vector3D \<Rightarrow> ref list \<Rightarrow> int \<Rightarrow> (error + Vector3D) option"
  and light_n ::
    "nat \<Rightarrow> store \<Rightarrow> ref \<Rightarrow> Vector3D \<Rightarrow> Vector3D \<Rightarrow> real \<Rightarrow> ref list \<Rightarrow> int
       \<Rightarrow> (error + Vector3D) option"
where
  "raytrace_n 0 st ray_origin ray_direction scene bounce = None"
| "raytrace_n (Suc k) st ray_origin ray_direction scene bounce =
     (let distances = map (\<lambda>sphere. intersect (st sphere) ray_origin ray_direction) scene
      in case reduce min distances of
           Inl e \<Rightarrow> Some (Inl e)
         | Inr nearest \<Rightarrow>
             accumulate_n nearest (Color 0 0 0)
               (map (\<lambda>(sphere, distance).
                       (distance, light_n k st sphere ray_origin ray_direction distance scene bounce))
                    (zip scene distances)))"
| "light_n k st self ray_origin ray_direction distance scene bounce =
     (let intersection_point = vec_add ray_origin (vec_mul ray_direction distance)
      in if radius (st self) = 0 then Some (Inl ZeroDivisionError)
         else
           let normal = vec_mul (vec_sub intersection_point (center (st self))) (1 / radius (st self));
               to_light = vec_norm (vec_sub LightPosition intersection_point);
               to_observer = vec_norm (vec_sub CameraPosition intersection_point);
               nudged_point = vec_add intersection_point (vec_mul normal (1 / 10000))
           in case see_light st self scene nudged_point to_light of
                Inl e \<Rightarrow> Some (Inl e)
              | Inr see \<Rightarrow>
                  (let color = Color (5 / 100) (5 / 100) (5 / 100);
                       lambert_value = max (vec_dot normal to_light) 0;
                       color = vec_add color
                                 (vec_mul (vec_mul (get_diffuse_color (st self) intersection_point)
                                                   lambert_value) (of_bool see))
                   in case (if bounce < 2
                            then let reflected_direction =
                                       vec_norm (vec_sub ray_direction
                                         (vec_mul (vec_mul normal 2) (vec_dot ray_direction normal)))
                                 in (case raytrace_n k st nudged_point reflected_direction scene (bounce + 1) of
                                       None \<Rightarrow> None
                                     | Some (Inl e) \<Rightarrow> Some (Inl e)
                                     | Some (Inr reflected) \<Rightarrow>
                                         Some (Inr (vec_add color (vec_mul reflected (mirror (st self))))))
                            else Some (Inr color)) of
                        None \<Rightarrow> None
                      | Some (Inl e) \<Rightarrow> Some (Inl e)
                      | Some (Inr color) \<Rightarrow>
                          let phong = vec_dot normal (vec_norm (vec_add to_light to_observer))
                          in Some (Inr (vec_add color
                                    (vec_mul (vec_mul (Color 1 1 1) ((min (max phong 0) 1) ^ 50))
                                             (of_bool see))))))"

declare raytrace_n.simps [simp del] light_n.simps [simp del]

subsection \<open>The local variables of \<open>Sphere.light\<close>\<close>

text \<open>
  The values that \<open>light\<close> binds before and after its reflection step, as functions of
  the arguments of the call, for the statements about \<open>light\<close> below.
\<close>

definition light_intersection_point :: "Vector3D \<Rightarrow> Vector3D \<Rightarrow> real \<Rightarrow> Vector3D" where
  "light_intersection_point ray_origin ray_direction distance =
     vec_add ray_origin (vec_mul ray_direction distance)"

definition light_normal :: "Sphere \<Rightarrow> Vector3D \<Rightarrow> Vector3D" where
  "light_normal self intersection_point =
     vec_mul (vec_sub intersection_point (center self)) (1 / radius self)"

definition light_to_light :: "Vector3D \<Rightarrow> Vector3D" where
  "light_to_light intersection_point = vec_norm (vec_sub LightPosition intersection_point)"

definition light_to_observer :: "Vector3D \<Rightarrow> Vector3D" where
  "light_to_observer intersection_point = vec_norm (vec_sub CameraPosition intersection_point)"

definition light_nudged_point :: "Sphere \<Rightarrow> Vector3D \<Rightarrow> Vector3D" where
  "light_nudged_point self intersection_point =
     vec_add intersection_point (vec_mul (light_normal self intersection_point) (1 / 10000))"

definition light_reflected_direction :: "Sphere \<Rightarrow> Vector3D \<Rightarrow> Vector3D \<Rightarrow> Vector3D" where
  "light_reflected_direction self intersection_point ray_direction =
     (let normal = light_normal self intersection_point
      in vec_norm (vec_sub ray_direction
                     (vec_mul (vec_mul normal 2) (vec_dot ray_direction normal))))"

definition light_diffuse :: "Sphere \<Rightarrow> Vector3D \<Rightarrow> bool \<Rightarrow> Vector3D" where
  \<comment> \<open>the Lambert term added to \<open>color\<close>, for a value of \<open>see_light\<close>\<close>
  "light_diffuse self intersection_point see =
     (let lambert_value = max (vec_dot (light_normal self intersection_point)
                                       (light_to_light intersection_point)) 0
      in vec_mul (vec_mul (get_diffuse_color self intersection_point) lambert_value)
                 (of_bool see))"

definition light_specular :: "Sphere \<Rightarrow> Vector3D \<Rightarrow> bool \<Rightarrow> Vector3D" where
  \<comment> \<open>the Blinn-Phong term added to \<open>color\<close>, for a value of \<open>see_light\<close>\<close>
  "light_specular self intersection_point see =
     (let phong = vec_dot (light_normal self intersection_point)
                    (vec_norm (vec_add (light_to_light intersection_point)
                                       (light_to_observer intersection_point)))
      in vec_mul (vec_mul (Color 1 1 1) ((min (max phong 0) 1) ^ 50)) (of_bool see))"

subsection \<open>Notions of the specification\<close>



definition checkered_diffuse_spec :: "Sphere \<Rightarrow> Vector3D \<Rightarrow> Vector3D" where
  \<comment> \<open>the diffuse color of a checkered sphere in the specification's words\<close>
  "checkered_diffuse_spec self intersection_point =
     (if \<lfloor>2 * x intersection_point\<rfloor> mod 2 = \<lfloor>2 * z intersection_point\<rfloor> mod 2
      then diffuse_color self else Color 0 0 0)"

subsection \<open>Example scenes\<close>



definition shadow_store :: store where
  \<comment> \<open>object 0: \<open>Sphere(Vector3D(5, 5, -6), 1, Color(1, 0, 0), 0)\<close>, facing the light;
      every other object: \<open>Sphere(Vector3D(5, 5, -8.5), .5, Color(0, 0, 1), 0)\<close>, between
      object 0 and the light\<close>
  "shadow_store =
     (\<lambda>r. if r = 0
          then \<lparr>center = \<lparr>x = 5, y = 5, z = - 6\<rparr>, radius = 1, diffuse_color = Color 1 0 0,
                 mirror = 0, cls = Sphere_class\<rparr>
          else \<lparr>center = \<lparr>x = 5, y = 5, z = - 85 / 10\<rparr>, radius = 5 / 10,
                 diffuse_color = Color 0 0 1, mirror = 0, cls = Sphere_class\<rparr>)"

definition checkered_example :: Sphere where
  \<comment> \<open>\<open>CheckeredSphere(Vector3D(0, -99999.5, 0), 99999, Color(.75, .75, .75), 0.25)\<close>,
      the floor of the program's scene\<close>
  "checkered_example =
     \<lparr>center = \<lparr>x = 0, y = - 999995 / 10, z = 0\<rparr>, radius = 99999,
      diffuse_color = Color (75 / 100) (75 / 100) (75 / 100), mirror = 25 / 100,
      cls = CheckeredSphere_class\<rparr>"

section \<open>Double precision\<close>































section \<open>Rounding\<close>



















































section \<open>Vectors\<close>

lemma vec_abs_nonneg: "0 \<le> vec_abs v"
  by (simp add: vec_abs_def vec_dot_def)


lemma norm_divisor_pos: "0 < norm_divisor v"
  using vec_abs_nonneg [of v]
  by (simp add: norm_divisor_def Let_def less_le)








section \<open>The intersection test\<close>


lemma intersect_unfold:
  "intersect S ro rd =
     (if 0 < intersect_disc S ro rd \<and> 0 < intersect_h S ro rd
      then intersect_h S ro rd else FAR_AWAY)"
  by (simp add: intersect_def Let_def)














section \<open>The scene resolver and the shading function\<close>

lemma vec_add_zero_right: "vec_add v (Color 0 0 0) = v"
  by (cases v) (simp add: vec_add_def Color_def)



lemma vec_mul_one: "vec_mul v 1 = v"
  by (cases v) (simp add: vec_mul_def)

lemma vec_mul_zero: "vec_mul v 0 = Color 0 0 0"
  by (simp add: vec_mul_def Color_def)




lemma reduce_min:
  fixes ds :: "real list"
  assumes "ds \<noteq> []"
  shows "reduce min ds = Inr (Min (set ds))"
proof -
  from assms obtain a rest where ds: "ds = a # rest"
    by (cases ds) auto
  have "foldl min a rest = fold min rest a"
    by (simp add: foldl_conv_fold min.commute)
  also have "\<dots> = Min (set (a # rest))"
    by (simp only: Min.set_eq_fold)
  finally show ?thesis
    by (simp add: reduce_def ds)
qed

lemma reduce_Nil: "reduce f [] = Inl TypeError"
  by (simp add: reduce_def)



lemma index_member:
  assumes "v \<in> set xs"
  shows "\<exists>i<length xs. index xs v = Inr i \<and> xs ! i = v"
  using assms
proof (induction xs)
  case Nil
  then show ?case by simp
next
  case (Cons a xs)
  show ?case
  proof (cases "a = v")
    case True
    then show ?thesis by simp
  next
    case False
    with Cons.prems have "v \<in> set xs" by simp
    from Cons.IH [OF this] obtain i where "i < length xs" "index xs v = Inr i" "xs ! i = v"
      by blast
    with False have "Suc i < length (a # xs) \<and> index (a # xs) v = Inr (Suc i) \<and> (a # xs) ! Suc i = v"
      by simp
    then show ?thesis by blast
  qed
qed

lemma index_absent: "v \<notin> set xs \<Longrightarrow> index xs v = Inl ValueError"
  by (induction xs) auto

lemma see_light_member:
  assumes "self \<in> set scene"
  shows "see_light st self scene p d
           = Inr (intersect (st self) p d = Min ((\<lambda>s. intersect (st s) p d) ` set scene))"
proof -
  from index_member [OF assms] obtain i where i: "i < length scene" "index scene self = Inr i"
    "scene ! i = self"
    by blast
  from assms have "scene \<noteq> []" by auto
  then have "reduce min (map (\<lambda>s. intersect (st s) p d) scene)
               = Inr (Min ((\<lambda>s. intersect (st s) p d) ` set scene))"
    using reduce_min [of "map (\<lambda>s. intersect (st s) p d) scene"] by simp
  with i show ?thesis
    by (simp add: see_light_def Let_def)
qed

lemma light_unfold:
  "light st self ro rd distance scene bounce =
     (let ip = light_intersection_point ro rd distance;
          nudged = light_nudged_point (st self) ip
      in if radius (st self) = 0 then Inl ZeroDivisionError
         else case see_light st self scene nudged (light_to_light ip) of
                Inl e \<Rightarrow> Inl e
              | Inr see \<Rightarrow>
                  if bounce < 2
                  then (case raytrace st nudged (light_reflected_direction (st self) ip rd) scene
                               (bounce + 1) of
                          Inl e \<Rightarrow> Inl e
                        | Inr reflected \<Rightarrow>
                            Inr (vec_add
                                   (vec_add
                                      (vec_add (Color (5 / 100) (5 / 100) (5 / 100))
                                               (light_diffuse (st self) ip see))
                                      (vec_mul reflected (mirror (st self))))
                                   (light_specular (st self) ip see)))
                  else Inr (vec_add
                              (vec_add (Color (5 / 100) (5 / 100) (5 / 100))
                                       (light_diffuse (st self) ip see))
                              (light_specular (st self) ip see)))"
  by (simp add: light.simps [of st self ro rd distance scene bounce] Let_def
        light_intersection_point_def light_nudged_point_def light_normal_def light_to_light_def
        light_to_observer_def light_reflected_direction_def light_diffuse_def light_specular_def
      split: sum.splits)

lemma light_n_unfold:
  "light_n k st self ro rd distance scene bounce =
     (let ip = light_intersection_point ro rd distance;
          nudged = light_nudged_point (st self) ip
      in if radius (st self) = 0 then Some (Inl ZeroDivisionError)
         else case see_light st self scene nudged (light_to_light ip) of
                Inl e \<Rightarrow> Some (Inl e)
              | Inr see \<Rightarrow>
                  if bounce < 2
                  then (case raytrace_n k st nudged (light_reflected_direction (st self) ip rd) scene
                               (bounce + 1) of
                          None \<Rightarrow> None
                        | Some (Inl e) \<Rightarrow> Some (Inl e)
                        | Some (Inr reflected) \<Rightarrow>
                            Some (Inr (vec_add
                                   (vec_add
                                      (vec_add (Color (5 / 100) (5 / 100) (5 / 100))
                                               (light_diffuse (st self) ip see))
                                      (vec_mul reflected (mirror (st self))))
                                   (light_specular (st self) ip see))))
                  else Some (Inr (vec_add
                              (vec_add (Color (5 / 100) (5 / 100) (5 / 100))
                                       (light_diffuse (st self) ip see))
                              (light_specular (st self) ip see))))"
  by (simp add: light_n.simps [of k st self ro rd distance scene bounce] Let_def
        light_intersection_point_def light_nudged_point_def light_normal_def light_to_light_def
        light_to_observer_def light_reflected_direction_def light_diffuse_def light_specular_def
      split: sum.splits option.splits)

lemma accumulate_all_Inr:
  assumes "\<forall>p\<in>set ps. \<exists>l. snd p = Inr l"
  shows "\<exists>col. accumulate nearest color ps = Inr col"
  using assms
proof (induction ps arbitrary: color)
  case Nil
  then show ?case by simp
next
  case (Cons p ps)
  obtain d r where p: "p = (d, r)" by (cases p)
  with Cons.prems obtain l where "r = Inr l" by auto
  with Cons p show ?case by simp
qed

lemma raytrace_from_light:
  assumes "scene \<noteq> []"
    and "\<forall>s\<in>set scene. \<exists>l. light st s ro rd (intersect (st s) ro rd) scene bounce = Inr l"
  shows "\<exists>col. raytrace st ro rd scene bounce = Inr col"
proof -
  let ?ds = "map (\<lambda>s. intersect (st s) ro rd) scene"
  let ?ps = "map (\<lambda>(sphere, distance). (distance, light st sphere ro rd distance scene bounce))
               (zip scene ?ds)"
  have zipmap: "zip scene ?ds = map (\<lambda>s. (s, intersect (st s) ro rd)) scene"
    by (induction scene) simp_all
  have "\<forall>p\<in>set ?ps. \<exists>l. snd p = Inr l"
    using assms(2) by (auto simp add: zipmap)
  from accumulate_all_Inr [OF this]
  obtain col where "accumulate (Min (set ?ds)) (Color 0 0 0) ?ps = Inr col"
    by blast
  moreover have "reduce min ?ds = Inr (Min (set ?ds))"
    using assms(1) by (intro reduce_min) simp
  ultimately show ?thesis
    by (simp add: raytrace.simps [of st ro rd scene bounce] Let_def)
qed

lemma light_from_raytrace:
  assumes "self \<in> set scene" and "radius (st self) \<noteq> 0"
    and "bounce < 2 \<Longrightarrow> \<exists>r. raytrace st
            (light_nudged_point (st self) (light_intersection_point ro rd distance))
            (light_reflected_direction (st self) (light_intersection_point ro rd distance) rd)
            scene (bounce + 1) = Inr r"
  shows "\<exists>l. light st self ro rd distance scene bounce = Inr l"
proof (cases "bounce < 2")
  case True
  from assms(3) [OF True] obtain r where "raytrace st
            (light_nudged_point (st self) (light_intersection_point ro rd distance))
            (light_reflected_direction (st self) (light_intersection_point ro rd distance) rd)
            scene (bounce + 1) = Inr r"
    by blast
  with True assms(1,2) show ?thesis
    by (simp add: light_unfold Let_def see_light_member)
next
  case False
  with assms(1,2) show ?thesis
    by (simp add: light_unfold Let_def see_light_member)
qed

lemma raytrace_succeeds:
  assumes "scene \<noteq> []" and "\<forall>s\<in>set scene. radius (st s) \<noteq> 0"
  shows "\<exists>col. raytrace st ro rd scene bounce = Inr col"
proof (induction "nat (2 - bounce)" arbitrary: bounce ro rd)
  case 0
  then have "\<not> bounce < 2" by simp
  then have "\<forall>s\<in>set scene. \<exists>l. light st s ro rd (intersect (st s) ro rd) scene bounce = Inr l"
    using assms(2) by (auto intro!: light_from_raytrace)
  with assms(1) show ?case by (rule raytrace_from_light)
next
  case (Suc n)
  then have "n = nat (2 - (bounce + 1))" by simp
  from Suc.hyps(1) [OF this]
  have "\<And>ro rd. \<exists>col. raytrace st ro rd scene (bounce + 1) = Inr col" .
  then have "\<forall>s\<in>set scene. \<exists>l. light st s ro rd (intersect (st s) ro rd) scene bounce = Inr l"
    using assms(2) by (auto intro!: light_from_raytrace)
  with assms(1) show ?case by (rule raytrace_from_light)
qed

lemma light_succeeds:
  assumes "self \<in> set scene" and "\<forall>s\<in>set scene. radius (st s) \<noteq> 0"
  shows "\<exists>l. light st self ro rd distance scene bounce = Inr l"
proof -
  from assms(1) have "scene \<noteq> []" by auto
  with assms show ?thesis
    by (auto intro!: light_from_raytrace raytrace_succeeds)
qed



text \<open>
  Claim C10. On the empty scene \<open>raytrace\<close> raises: the reduction over the empty list of
  distances has no element to start from. So a call that returns a color was made on a
  scene with at least one sphere.
\<close>

theorem raytrace_empty_scene:
  "raytrace st ro rd [] bounce = Inl TypeError"
  by (simp add: raytrace.simps reduce_Nil)

lemma light_masked_terms:
  "light_diffuse S ip see =
     (if see then vec_mul (get_diffuse_color S ip)
                   (max (vec_dot (light_normal S ip) (light_to_light ip)) 0)
      else Color 0 0 0)"
  "light_specular S ip see =
     (if see then vec_mul (Color 1 1 1)
                   ((min (max (vec_dot (light_normal S ip)
                                 (vec_norm (vec_add (light_to_light ip) (light_to_observer ip)))) 0) 1) ^ 50)
      else Color 0 0 0)"
  by (simp_all add: light_diffuse_def light_specular_def Let_def vec_mul_zero vec_mul_one)

lemma sqrt_nine: "sqrt 9 = 3"
  by (rule real_sqrt_unique) simp_all

lemma shadow_to_light:
  "light_to_light \<lparr>x = 5, y = 5, z = - 7\<rparr> = \<lparr>x = 0, y = 0, z = - 1\<rparr>"
  by (simp add: light_to_light_def LightPosition_def vec_sub_def vec_norm_def norm_divisor_def
        vec_abs_def vec_dot_def vec_mul_def sqrt_nine)

lemma shadow_nudged:
  "light_nudged_point (shadow_store 0) \<lparr>x = 5, y = 5, z = - 7\<rparr>
     = \<lparr>x = 5, y = 5, z = - (70001 / 10000)\<rparr>"
  by (simp add: light_nudged_point_def light_normal_def shadow_store_def vec_sub_def vec_mul_def
        vec_add_def)

lemma shadow_self_distance:
  "intersect (shadow_store 0) \<lparr>x = 5, y = 5, z = - (70001 / 10000)\<rparr> \<lparr>x = 0, y = 0, z = - 1\<rparr>
     = FAR_AWAY"
proof -
  have "intersect_disc (shadow_store 0) \<lparr>x = 5, y = 5, z = - (70001 / 10000)\<rparr> \<lparr>x = 0, y = 0, z = - 1\<rparr> = 4"
    by (simp add: intersect_disc_def intersect_b_def intersect_c_def shadow_store_def
          vec_abs_def vec_dot_def vec_sub_def power2_eq_square)
  moreover have "intersect_b (shadow_store 0) \<lparr>x = 5, y = 5, z = - (70001 / 10000)\<rparr> \<lparr>x = 0, y = 0, z = - 1\<rparr>
                   = 20002 / 10000"
    by (simp add: intersect_b_def shadow_store_def vec_dot_def vec_sub_def)
  ultimately have "intersect_h (shadow_store 0) \<lparr>x = 5, y = 5, z = - (70001 / 10000)\<rparr> \<lparr>x = 0, y = 0, z = - 1\<rparr>
                   = - 1 / 10000"
    by (simp add: intersect_h_def Let_def)
  then show ?thesis
    by (simp add: intersect_unfold)
qed

lemma shadow_blocker_distance:
  "intersect (shadow_store (Suc 0)) \<lparr>x = 5, y = 5, z = - (70001 / 10000)\<rparr> \<lparr>x = 0, y = 0, z = - 1\<rparr>
     = 9999 / 10000"
proof -
  have disc: "intersect_disc (shadow_store (Suc 0)) \<lparr>x = 5, y = 5, z = - (70001 / 10000)\<rparr> \<lparr>x = 0, y = 0, z = - 1\<rparr> = 1"
    by (simp add: intersect_disc_def intersect_b_def intersect_c_def shadow_store_def
          vec_abs_def vec_dot_def vec_sub_def power2_eq_square)
  moreover have "intersect_b (shadow_store (Suc 0)) \<lparr>x = 5, y = 5, z = - (70001 / 10000)\<rparr> \<lparr>x = 0, y = 0, z = - 1\<rparr>
                   = - 29998 / 10000"
    by (simp add: intersect_b_def shadow_store_def vec_dot_def vec_sub_def)
  ultimately have "intersect_h (shadow_store (Suc 0)) \<lparr>x = 5, y = 5, z = - (70001 / 10000)\<rparr> \<lparr>x = 0, y = 0, z = - 1\<rparr>
                   = 9999 / 10000"
    by (simp add: intersect_h_def Let_def)
  with disc show ?thesis
    by (simp add: intersect_unfold)
qed

text \<open>
  Claim C3. For a sphere of the scene, the nudged point is the intersection point moved
  by \<open>1e-4\<close> along the normal, \<open>scene.index(self)\<close> finds the sphere's position in the
  scene, and the lit mask \<open>see_light\<close> is true exactly when the sphere's own distance
  for the ray from the nudged point toward the light equals the minimum over the whole
  scene. The color that \<open>light\<close> returns is the ambient \<open>0.05\<close> gray, plus the diffuse
  term and the specular term where the mask is true and the zero vector in their place
  where it is false, plus the reflected color times the mirror coefficient when
  \<open>bounce < 2\<close>. With a false mask only the ambient color and the reflection remain.
\<close>

theorem shadow_mask:
  assumes "self \<in> set scene" and "radius (st self) \<noteq> 0"
  shows "let ip = light_intersection_point ro rd distance;
             normal = light_normal (st self) ip;
             nudged = light_nudged_point (st self) ip;
             lit = (intersect (st self) nudged (light_to_light ip)
                      = Min ((\<lambda>s. intersect (st s) nudged (light_to_light ip)) ` set scene));
             ambient = Color (5 / 100) (5 / 100) (5 / 100);
             diffuse = (if lit then vec_mul (get_diffuse_color (st self) ip)
                                     (max (vec_dot normal (light_to_light ip)) 0)
                        else Color 0 0 0);
             specular = (if lit then vec_mul (Color 1 1 1)
                                      ((min (max (vec_dot normal
                                          (vec_norm (vec_add (light_to_light ip)
                                                             (light_to_observer ip)))) 0) 1) ^ 50)
                         else Color 0 0 0)
         in nudged = vec_add ip (vec_mul normal (1 / 10000))
          \<and> (\<exists>i<length scene. index scene self = Inr i \<and> scene ! i = self)
          \<and> see_light st self scene nudged (light_to_light ip) = Inr lit
          \<and> light st self ro rd distance scene bounce =
               (if bounce < 2
                then (case raytrace st nudged (light_reflected_direction (st self) ip rd) scene
                             (bounce + 1) of
                        Inl e \<Rightarrow> Inl e
                      | Inr reflected \<Rightarrow>
                          Inr (vec_add (vec_add (vec_add ambient diffuse)
                                                (vec_mul reflected (mirror (st self))))
                                       specular))
                else Inr (vec_add (vec_add ambient diffuse) specular))
          \<and> (\<not> lit \<longrightarrow>
               light st self ro rd distance scene bounce =
                 (if bounce < 2
                  then (case raytrace st nudged (light_reflected_direction (st self) ip rd) scene
                               (bounce + 1) of
                          Inl e \<Rightarrow> Inl e
                        | Inr reflected \<Rightarrow>
                            Inr (vec_add ambient (vec_mul reflected (mirror (st self)))))
                  else Inr ambient))"
proof -
  define ip where "ip = light_intersection_point ro rd distance"
  define nudged where "nudged = light_nudged_point (st self) ip"
  define lit where "lit \<longleftrightarrow> intersect (st self) nudged (light_to_light ip)
                      = Min ((\<lambda>s. intersect (st s) nudged (light_to_light ip)) ` set scene)"
  define ambient where "ambient = Color (5 / 100) (5 / 100) (5 / 100)"
  have nudge: "nudged = vec_add ip (vec_mul (light_normal (st self) ip) (1 / 10000))"
    by (simp add: nudged_def light_nudged_point_def)
  have idx: "\<exists>i<length scene. index scene self = Inr i \<and> scene ! i = self"
    using assms(1) by (rule index_member)
  have see: "see_light st self scene nudged (light_to_light ip) = Inr lit"
    unfolding lit_def using assms(1) by (rule see_light_member)
  have shaded: "light st self ro rd distance scene bounce =
               (if bounce < 2
                then (case raytrace st nudged (light_reflected_direction (st self) ip rd) scene
                             (bounce + 1) of
                        Inl e \<Rightarrow> Inl e
                      | Inr reflected \<Rightarrow>
                          Inr (vec_add (vec_add (vec_add ambient (light_diffuse (st self) ip lit))
                                                (vec_mul reflected (mirror (st self))))
                                       (light_specular (st self) ip lit)))
                else Inr (vec_add (vec_add ambient (light_diffuse (st self) ip lit))
                                  (light_specular (st self) ip lit)))"
    unfolding ambient_def using assms(2) see
    by (simp add: light_unfold [of st self ro rd distance scene bounce] Let_def
          ip_def [symmetric] nudged_def [symmetric])
  have shadowed: "light st self ro rd distance scene bounce =
                 (if bounce < 2
                  then (case raytrace st nudged (light_reflected_direction (st self) ip rd) scene
                               (bounce + 1) of
                          Inl e \<Rightarrow> Inl e
                        | Inr reflected \<Rightarrow>
                            Inr (vec_add ambient (vec_mul reflected (mirror (st self)))))
                  else Inr ambient)" if "\<not> lit"
    using that
    by (simp add: shaded light_masked_terms vec_add_zero_right cong: sum.case_cong)
  from nudge idx see shaded shadowed show ?thesis
    unfolding Let_def ip_def [symmetric] nudged_def [symmetric] lit_def [symmetric]
      ambient_def [symmetric] light_masked_terms [symmetric]
    by blast
qed

theorem shadow_mask_witness:
  "see_light shadow_store 0 [0, 1] \<lparr>x = 5, y = 5, z = - (70001 / 10000)\<rparr> \<lparr>x = 0, y = 0, z = - 1\<rparr>
     = Inr False
   \<and> light shadow_store 0 \<lparr>x = 5, y = 5, z = - 7\<rparr> \<lparr>x = 0, y = 0, z = 1\<rparr> 0 [0, 1] 2
       = Inr (Color (5 / 100) (5 / 100) (5 / 100))
   \<and> see_light shadow_store 0 [0] \<lparr>x = 5, y = 5, z = - (70001 / 10000)\<rparr> \<lparr>x = 0, y = 0, z = - 1\<rparr>
       = Inr True
   \<and> light shadow_store 0 \<lparr>x = 5, y = 5, z = - 7\<rparr> \<lparr>x = 0, y = 0, z = 1\<rparr> 0 [0] 2
       = Inr (vec_add (vec_add (Color (5 / 100) (5 / 100) (5 / 100)) (Color 1 0 0))
                      (light_specular (shadow_store 0) \<lparr>x = 5, y = 5, z = - 7\<rparr> True))"
proof -
  have ip: "light_intersection_point \<lparr>x = 5, y = 5, z = - 7\<rparr> \<lparr>x = 0, y = 0, z = 1\<rparr> 0
              = \<lparr>x = 5, y = 5, z = - 7\<rparr>"
    by (simp add: light_intersection_point_def vec_add_def vec_mul_def)
  have member: "(0::nat) \<in> set [0, 1]" and alone: "(0::nat) \<in> set [0]" by simp_all
  have radius: "radius (shadow_store 0) \<noteq> 0" by (simp add: shadow_store_def)
  have unlit: "\<not> (intersect (shadow_store 0) \<lparr>x = 5, y = 5, z = - (70001 / 10000)\<rparr> \<lparr>x = 0, y = 0, z = - 1\<rparr>
                 = Min ((\<lambda>s. intersect (shadow_store s) \<lparr>x = 5, y = 5, z = - (70001 / 10000)\<rparr>
                                 \<lparr>x = 0, y = 0, z = - 1\<rparr>) ` set [0, 1]))"
    by (simp add: shadow_self_distance shadow_blocker_distance FAR_AWAY_def)
  have lambert: "vec_mul (get_diffuse_color (shadow_store 0) \<lparr>x = 5, y = 5, z = - 7\<rparr>)
                   (max (vec_dot (light_normal (shadow_store 0) \<lparr>x = 5, y = 5, z = - 7\<rparr>)
                                 \<lparr>x = 0, y = 0, z = - 1\<rparr>) 0) = Color 1 0 0"
    by (simp add: get_diffuse_color_def shadow_store_def light_normal_def vec_sub_def vec_mul_def
          vec_dot_def Color_def)
  note mask = shadow_mask [where self = 0 and scene = "[0, 1]" and st = shadow_store
      and ro = "\<lparr>x = 5, y = 5, z = - 7\<rparr>" and rd = "\<lparr>x = 0, y = 0, z = 1\<rparr>"
      and distance = 0 and bounce = 2, OF member radius,
      unfolded Let_def ip shadow_nudged shadow_to_light, THEN conjunct2]
  from mask unlit have shadowed:
    "see_light shadow_store 0 [0, 1] \<lparr>x = 5, y = 5, z = - (70001 / 10000)\<rparr> \<lparr>x = 0, y = 0, z = - 1\<rparr>
       = Inr False
     \<and> light shadow_store 0 \<lparr>x = 5, y = 5, z = - 7\<rparr> \<lparr>x = 0, y = 0, z = 1\<rparr> 0 [0, 1] 2
         = Inr (Color (5 / 100) (5 / 100) (5 / 100))"
    by (simp add: shadow_self_distance shadow_blocker_distance FAR_AWAY_def vec_add_zero_right)
  note open_mask = shadow_mask [where self = 0 and scene = "[0]" and st = shadow_store
      and ro = "\<lparr>x = 5, y = 5, z = - 7\<rparr>" and rd = "\<lparr>x = 0, y = 0, z = 1\<rparr>"
      and distance = 0 and bounce = 2, OF alone radius,
      unfolded Let_def ip shadow_nudged shadow_to_light, THEN conjunct2]
  from open_mask have lit:
    "see_light shadow_store 0 [0] \<lparr>x = 5, y = 5, z = - (70001 / 10000)\<rparr> \<lparr>x = 0, y = 0, z = - 1\<rparr>
       = Inr True
     \<and> light shadow_store 0 \<lparr>x = 5, y = 5, z = - 7\<rparr> \<lparr>x = 0, y = 0, z = 1\<rparr> 0 [0] 2
         = Inr (vec_add (vec_add (Color (5 / 100) (5 / 100) (5 / 100)) (Color 1 0 0))
                        (light_specular (shadow_store 0) \<lparr>x = 5, y = 5, z = - 7\<rparr> True))"
    by (simp add: lambert light_masked_terms(2) shadow_to_light)
  from shadowed lit show ?thesis by blast
qed

section \<open>Depth of the recursion\<close>

lemma accumulate_n_Some:
  "accumulate_n nearest color (map (\<lambda>(d, r). (d, Some r)) ps) = Some (accumulate nearest color ps)"
proof (induction ps arbitrary: color)
  case Nil
  then show ?case by simp
next
  case (Cons p ps)
  obtain d r where p: "p = (d, r)" by (cases p)
  show ?case
    by (cases r) (simp_all add: p Cons.IH)
qed

lemma raytrace_n_from_light_n:
  assumes "\<forall>s\<in>set scene. light_n k st s ro rd (intersect (st s) ro rd) scene bounce
                            = Some (light st s ro rd (intersect (st s) ro rd) scene bounce)"
  shows "raytrace_n (Suc k) st ro rd scene bounce = Some (raytrace st ro rd scene bounce)"
proof -
  let ?ds = "map (\<lambda>s. intersect (st s) ro rd) scene"
  have zipmap: "zip scene ?ds = map (\<lambda>s. (s, intersect (st s) ro rd)) scene"
    by (induction scene) simp_all
  have eq: "map (\<lambda>(sphere, distance). (distance, light_n k st sphere ro rd distance scene bounce))
          (zip scene ?ds)
        = map (\<lambda>(d, r). (d, Some r))
            (map (\<lambda>(sphere, distance). (distance, light st sphere ro rd distance scene bounce))
               (zip scene ?ds))"
    using assms by (simp add: zipmap)
  show ?thesis
    unfolding raytrace_n.simps(2) [of k st ro rd scene bounce]
      raytrace.simps [of st ro rd scene bounce] Let_def eq accumulate_n_Some
    by (simp split: sum.splits)
qed

lemma light_n_from_raytrace_n:
  assumes "bounce < 2 \<Longrightarrow> (\<And>p d. raytrace_n k st p d scene (bounce + 1)
                                    = Some (raytrace st p d scene (bounce + 1)))"
  shows "light_n k st self ro rd distance scene bounce
           = Some (light st self ro rd distance scene bounce)"
proof (cases "bounce < 2")
  case True
  from assms [OF True] show ?thesis
    by (simp add: light_n_unfold light_unfold Let_def split: sum.splits)
next
  case False
  then show ?thesis
    by (simp add: light_n_unfold light_unfold Let_def split: sum.splits)
qed

lemma raytrace_n_enough:
  assumes "1 \<le> k" and "3 - bounce \<le> int k"
  shows "raytrace_n k st ro rd scene bounce = Some (raytrace st ro rd scene bounce)"
  using assms
proof (induction k arbitrary: bounce ro rd)
  case 0
  then show ?case by simp
next
  case (Suc k)
  have "light_n k st s p d dist scene bounce = Some (light st s p d dist scene bounce)"
    for s p d dist
  proof (rule light_n_from_raytrace_n)
    fix p' d'
    assume "bounce < 2"
    with Suc.prems have "1 \<le> k" "3 - (bounce + 1) \<le> int k"
      by simp_all
    then show "raytrace_n k st p' d' scene (bounce + 1) = Some (raytrace st p' d' scene (bounce + 1))"
      by (rule Suc.IH)
  qed
  then show ?case
    by (intro raytrace_n_from_light_n) simp
qed

text \<open>
  Claim C6. The recursion ends: \<open>light\<close> takes the reflection step only when
  \<open>bounce < 2\<close> and calls \<open>raytrace\<close> with \<open>bounce + 1\<close>, so a call of \<open>raytrace\<close> with
  \<open>bounce = 0\<close> needs at most three activations of \<open>raytrace\<close> nested in each other, the
  first one and two levels of reflection, whatever the scene, the store and the ray; with
  that budget the bounded tracer returns the value of \<open>raytrace\<close>.
\<close>

theorem raytrace_depth_bounded:
  "raytrace_n 3 st ro rd scene 0 = Some (raytrace st ro rd scene 0)"
  by (rule raytrace_n_enough) simp_all

lemma light_n_needs_trace:
  assumes "self \<in> set scene" and "radius (st self) \<noteq> 0" and "bounce < 2"
  shows "light_n 0 st self ro rd distance scene bounce = None"
  using assms
  by (simp add: light_n_unfold Let_def see_light_member raytrace_n.simps(1))

lemma accumulate_n_first_None:
  "accumulate_n nearest color ((d, None) # rest) = None"
  by simp

lemma raytrace_n_first_None:
  assumes "light_n k st s ro rd (intersect (st s) ro rd) (s # rest) bounce = None"
  shows "raytrace_n (Suc k) st ro rd (s # rest) bounce = None"
  using assms
  by (simp add: raytrace_n.simps(2) [of k st ro rd "s # rest" bounce] Let_def reduce_def)

lemma raytrace_n_two_insufficient:
  assumes "radius (st s) \<noteq> 0"
  shows "raytrace_n 2 st ro rd (s # rest) 0 = None"
proof -
  have member: "s \<in> set (s # rest)" by simp
  have "light_n 0 st s p d dist (s # rest) 1 = None" for p d dist
    using member assms by (rule light_n_needs_trace) simp
  then have inner: "raytrace_n 1 st p d (s # rest) 1 = None" for p d
    using raytrace_n_first_None [of 0 st s p d rest 1] by simp
  have "light_n 1 st s ro rd dist (s # rest) 0 = None" for dist
    using member assms inner
    by (simp add: light_n_unfold Let_def see_light_member)
  then show ?thesis
    using raytrace_n_first_None [of 1 st s ro rd rest 0] by (simp add: numeral_2_eq_2)
qed

section \<open>Reflection and the mirror coefficient\<close>





section \<open>Equal nearest distances\<close>









section \<open>The checkered sphere\<close>

text \<open>
  Claim C2 against the code. \<open>light\<close> takes the diffuse color from \<open>get_diffuse_color\<close>,
  which returns the attribute \<open>diffuse_color\<close> for every class of sphere. At the point
  \<open>(0.6, -0.5, 0.2)\<close> of the checkered floor sphere, where \<open>floor(2x) mod 2 = 1\<close> and
  \<open>floor(2z) mod 2 = 0\<close>, the specification's diffuse color is black, and so is the value
  of the method \<open>CheckeredSphere.diffuse_color\<close>, but the shading uses the base color.
\<close>

theorem checkered_pattern_not_applied:
  "cls checkered_example = CheckeredSphere_class
   \<and> get_diffuse_color checkered_example \<lparr>x = 6 / 10, y = - (1 / 2), z = 2 / 10\<rparr>
       = Color (75 / 100) (75 / 100) (75 / 100)
   \<and> checkered_diffuse_spec checkered_example \<lparr>x = 6 / 10, y = - (1 / 2), z = 2 / 10\<rparr>
       = Color 0 0 0
   \<and> CheckeredSphere_diffuse_color checkered_example \<lparr>x = 6 / 10, y = - (1 / 2), z = 2 / 10\<rparr>
       = Color 0 0 0
   \<and> get_diffuse_color checkered_example \<lparr>x = 6 / 10, y = - (1 / 2), z = 2 / 10\<rparr>
       \<noteq> checkered_diffuse_spec checkered_example \<lparr>x = 6 / 10, y = - (1 / 2), z = 2 / 10\<rparr>"
proof -
  have f1: "\<lfloor>2 * (6 / 10 :: real)\<rfloor> = 1" and f2: "\<lfloor>2 * (2 / 10 :: real)\<rfloor> = 0"
    by linarith+
  have a1: "astype_int (6 / 10 * 2) = 1" and a2: "astype_int (2 / 10 * 2) = 0"
    by (simp_all add: astype_int_def)
  show ?thesis
    using f1 f2 a1 a2
    by (simp add: checkered_example_def get_diffuse_color_def checkered_diffuse_spec_def
          CheckeredSphere_diffuse_color_def Let_def Color_def vec_mul_def)
qed

end
